theory Spec2Isabelle
  imports Complex_Main "HOL-Library.AList"
begin

section \<open>Token-based authentication core: the embedding\<close>

text \<open>
  The program is a FastAPI service whose authentication core lives in two files:
  \<^verbatim>\<open>src/tokens_access.py\<close> (access and refresh tokens, built on python-jose) and
  \<^verbatim>\<open>utils/token.py\<close> (email verification tokens, built on PyJWT).  Both are thin
  wrappers around a JWT library, a clock and an SQLAlchemy session.  The embedding makes
  each of the three explicit:
  \<^item> the clock \<^verbatim>\<open>datetime.utcnow()\<close> is a parameter \<open>now\<close>: the whole seconds since the
    epoch of the reading.  Both libraries write \<^verbatim>\<open>exp\<close> as that whole number
    (\<^verbatim>\<open>timegm(...utctimetuple())\<close>), and comparing an integer claim with the reading
    gives the same answer as comparing it with the reading's whole seconds;
  \<^item> the process-wide \<^verbatim>\<open>SECRET_KEY\<close> is a parameter \<open>key\<close>;
  \<^item> the session is the list of rows of the \<^verbatim>\<open>users\<close> table, passed in and returned.
  Every exception the Python can raise is a value \<open>Inl e\<close> of the result.
\<close>

subsection \<open>Python values and exceptions\<close>

text \<open>
  Claim values, as far as this program reads or writes them: Python's \<^verbatim>\<open>None\<close> (JSON
  null), integers and strings.  A \<^verbatim>\<open>dict\<close> is an association list in insertion order;
  \<^verbatim>\<open>d.update({k: v})\<close> overwrites in place or appends, which is \<open>AList.update\<close>.
\<close>

datatype json = JNull | JInt int | JStr string

type_synonym pydict = "(string \<times> json) list"

text \<open>
  The library errors.  In python-jose every one of them is (a subclass of)
  \<^verbatim>\<open>JWTError\<close>, in PyJWT (a subclass of) \<^verbatim>\<open>PyJWTError\<close>; the program only ever catches
  these base classes (and \<^verbatim>\<open>ExpiredSignatureError\<close>, one of the subclasses).
\<close>

datatype jwt_error = DecodeError | SignatureError | ClaimsError | ExpiredSignatureError

datatype exception =
    JWTError jwt_error
  | HTTPException nat string "(string \<times> string) list"
  | KeyError string
  | AttributeError string
  | TypeError
  | ValueError
  | OverflowError

text \<open>\<^verbatim>\<open>d[k]\<close> raises \<^verbatim>\<open>KeyError\<close> on a missing key; \<^verbatim>\<open>d.get(k)\<close> returns \<^verbatim>\<open>None\<close>.\<close>

definition dict_item :: "pydict \<Rightarrow> string \<Rightarrow> exception + json" where
  "dict_item d k = (case map_of d k of None \<Rightarrow> Inl (KeyError k) | Some v \<Rightarrow> Inr v)"

definition dict_get :: "pydict \<Rightarrow> string \<Rightarrow> json" where
  "dict_get d k = (case map_of d k of None \<Rightarrow> JNull | Some v \<Rightarrow> v)"

definition dict_update :: "string \<Rightarrow> json \<Rightarrow> pydict \<Rightarrow> pydict" where
  "dict_update k v d = AList.update k v d"

text \<open>
  Python's \<^verbatim>\<open>int(v)\<close> on a claim value, which both libraries apply to the time claims.
  On a string it reads a decimal numeral: surrounding white space, a sign, digits, and
  single underscores between digits; anything else is a \<^verbatim>\<open>ValueError\<close>.  On \<^verbatim>\<open>None\<close> it
  is a \<^verbatim>\<open>TypeError\<close>.  (Characters are bytes here; white space and digits outside ASCII
  are not read.)
\<close>

definition is_space :: "char \<Rightarrow> bool" where
  "is_space c = (let n = (of_char c :: nat) in (9 \<le> n \<and> n \<le> 13) \<or> (28 \<le> n \<and> n \<le> 32))"

definition digit_of :: "char \<Rightarrow> nat option" where
  "digit_of c = (let n = (of_char c :: nat) in if 48 \<le> n \<and> n \<le> 57 then Some (n - 48) else None)"

fun read_digits :: "nat \<Rightarrow> bool \<Rightarrow> string \<Rightarrow> nat option" where
  "read_digits acc after_digit [] = (if after_digit then Some acc else None)"
| "read_digits acc after_digit (c # cs) =
     (case digit_of c of
        Some d \<Rightarrow> read_digits (acc * 10 + d) True cs
      | None \<Rightarrow> if c = CHR ''_'' \<and> after_digit then read_digits acc False cs else None)"

definition strip :: "string \<Rightarrow> string" where
  "strip s = rev (dropWhile is_space (rev (dropWhile is_space s)))"

definition int_of_str :: "string \<Rightarrow> int option" where
  "int_of_str s =
     (case strip s of
        [] \<Rightarrow> None
      | c # cs \<Rightarrow>
          if c = CHR ''-'' then map_option (\<lambda>n. - int n) (read_digits 0 False cs)
          else if c = CHR ''+'' then map_option int (read_digits 0 False cs)
          else map_option int (read_digits 0 False (c # cs)))"

definition py_int :: "json \<Rightarrow> exception + int" where
  "py_int v =
     (case v of
        JInt n \<Rightarrow> Inr n
      | JStr s \<Rightarrow> (case int_of_str s of None \<Rightarrow> Inl ValueError | Some n \<Rightarrow> Inr n)
      | JNull \<Rightarrow> Inl TypeError)"

text \<open>The first exception of a sequence of checks, as a sequence of statements raises it.\<close>

fun first_error :: "(exception + unit) list \<Rightarrow> exception + unit" where
  "first_error [] = Inr ()"
| "first_error (Inl e # rs) = Inl e"
| "first_error (Inr u # rs) = first_error rs"

subsection \<open>Dates and lifetimes\<close>

text \<open>
  A \<^verbatim>\<open>datetime\<close> lies between the years 1 and 9999, in epoch seconds between
  \<open>-62135596800\<close> and \<open>253402300799\<close>, and a \<^verbatim>\<open>timedelta\<close> has at most 999999999 days
  either way; building one out of range, or adding past the range, raises
  \<^verbatim>\<open>OverflowError\<close>.
\<close>

definition datetime_ok :: "int \<Rightarrow> bool" where
  "datetime_ok t = (- 62135596800 \<le> t \<and> t \<le> 253402300799)"

definition timedelta_seconds :: "int \<Rightarrow> exception + int" where
  "timedelta_seconds n =
     (if - 999999999 \<le> n div 86400 \<and> n div 86400 \<le> 999999999 then Inr n
      else Inl OverflowError)"

definition datetime_add :: "int \<Rightarrow> int \<Rightarrow> exception + int" where
  "datetime_add t n = (if datetime_ok (t + n) then Inr (t + n) else Inl OverflowError)"

text \<open>
  \<^verbatim>\<open>expires_delta\<close> is an optional float, a lifetime in seconds.  Of a float the program
  uses its truth value (only zero is false) and \<^verbatim>\<open>int(...)\<close>, which truncates towards
  zero and raises \<^verbatim>\<open>ValueError\<close> on a NaN and \<^verbatim>\<open>OverflowError\<close> on an infinity.  A
  finite float is the real number it denotes.
\<close>

datatype pyfloat = Finite real | NaN | PosInf | NegInf

definition truthy :: "pyfloat \<Rightarrow> bool" where
  "truthy x = (case x of Finite q \<Rightarrow> q \<noteq> 0 | NaN \<Rightarrow> True | PosInf \<Rightarrow> True | NegInf \<Rightarrow> True)"

definition trunc :: "real \<Rightarrow> int" where
  "trunc q = (if 0 \<le> q then \<lfloor>q\<rfloor> else \<lceil>q\<rceil>)"

definition float_int :: "pyfloat \<Rightarrow> exception + int" where
  "float_int x =
     (case x of
        Finite q \<Rightarrow> Inr (trunc q)
      | NaN \<Rightarrow> Inl ValueError
      | PosInf \<Rightarrow> Inl OverflowError
      | NegInf \<Rightarrow> Inl OverflowError)"

text \<open>\<^verbatim>\<open>datetime.utcnow() + timedelta(seconds=int(expires_delta))\<close>.\<close>

definition expire_after :: "int \<Rightarrow> pyfloat \<Rightarrow> exception + int" where
  "expire_after now x =
     (case float_int x of
        Inl e \<Rightarrow> Inl e
      | Inr n \<Rightarrow>
          (case timedelta_seconds n of
             Inl e \<Rightarrow> Inl e
           | Inr s \<Rightarrow> datetime_add now s))"

subsection \<open>The JWT libraries\<close>

text \<open>
  The libraries are not part of the repository; they are modelled as far as this program
  calls them, with their default options.  The compact serialisation is symbolic: a string
  on the wire is either a well-formed three-part JWS, represented by what its parts decode
  to (the \<^verbatim>\<open>alg\<close> of the header, the claims object, the signature), or any other string.
  The HMAC-SHA256 tag is a free constructor over the key and the signed content, so that a
  tag verifies exactly when it was computed with the same key over the same header and
  claims.  The secret is taken to be one that both libraries accept for HMAC: a plain
  string, not key material in PEM or SSH form.
\<close>

datatype signature = HMAC string string pydict

datatype token = JWS string pydict signature | Text string

definition jwt_encode :: "pydict \<Rightarrow> string \<Rightarrow> string \<Rightarrow> token" where
  "jwt_encode claims key algorithm = JWS algorithm claims (HMAC key algorithm claims)"

definition jws_verify :: "token \<Rightarrow> string \<Rightarrow> string list \<Rightarrow> jwt_error + pydict" where
  "jws_verify tok key algorithms =
     (case tok of
        Text s \<Rightarrow> Inl DecodeError
      | JWS alg claims sg \<Rightarrow>
          if alg \<notin> set algorithms then Inl DecodeError
          else if sg = HMAC key alg claims then Inr claims
          else Inl SignatureError)"

text \<open>
  After the signature python-jose validates the registered claims, in this order:
  \<^verbatim>\<open>iat\<close> and \<^verbatim>\<open>nbf\<close> and \<^verbatim>\<open>exp\<close> must convert with \<^verbatim>\<open>int\<close> (a \<^verbatim>\<open>ValueError\<close>
  becomes the library's error, a \<^verbatim>\<open>TypeError\<close> escapes), \<^verbatim>\<open>nbf\<close> must not be after the
  current second and \<^verbatim>\<open>exp\<close> not before it; an \<^verbatim>\<open>aud\<close> is refused since the program names
  no audience; \<^verbatim>\<open>sub\<close> and \<^verbatim>\<open>jti\<close> must be strings; an \<^verbatim>\<open>at_hash\<close> is refused since the
  program passes no access token.  \<^verbatim>\<open>iss\<close> is not looked at.
\<close>

definition jose_int_claim :: "pydict \<Rightarrow> string \<Rightarrow> exception + int option" where
  "jose_int_claim claims k =
     (case map_of claims k of
        None \<Rightarrow> Inr None
      | Some v \<Rightarrow>
          (case py_int v of
             Inl ValueError \<Rightarrow> Inl (JWTError ClaimsError)
           | Inl e \<Rightarrow> Inl e
           | Inr n \<Rightarrow> Inr (Some n)))"

definition jose_validate_iat :: "pydict \<Rightarrow> exception + unit" where
  "jose_validate_iat claims =
     (case jose_int_claim claims ''iat'' of Inl e \<Rightarrow> Inl e | Inr n \<Rightarrow> Inr ())"

definition jose_validate_nbf :: "pydict \<Rightarrow> int \<Rightarrow> exception + unit" where
  "jose_validate_nbf claims now =
     (case jose_int_claim claims ''nbf'' of
        Inl e \<Rightarrow> Inl e
      | Inr None \<Rightarrow> Inr ()
      | Inr (Some nbf) \<Rightarrow> if nbf > now then Inl (JWTError ClaimsError) else Inr ())"

definition jose_validate_exp :: "pydict \<Rightarrow> int \<Rightarrow> exception + unit" where
  "jose_validate_exp claims now =
     (case jose_int_claim claims ''exp'' of
        Inl e \<Rightarrow> Inl e
      | Inr None \<Rightarrow> Inr ()
      | Inr (Some e) \<Rightarrow> if e < now then Inl (JWTError ExpiredSignatureError) else Inr ())"

definition refuse_claim :: "pydict \<Rightarrow> string \<Rightarrow> exception + unit" where
  "refuse_claim claims k =
     (case map_of claims k of None \<Rightarrow> Inr () | Some v \<Rightarrow> Inl (JWTError ClaimsError))"

definition string_claim :: "pydict \<Rightarrow> string \<Rightarrow> exception + unit" where
  "string_claim claims k =
     (case map_of claims k of
        None \<Rightarrow> Inr ()
      | Some (JStr s) \<Rightarrow> Inr ()
      | Some v \<Rightarrow> Inl (JWTError ClaimsError))"

definition jose_validate_claims :: "pydict \<Rightarrow> int \<Rightarrow> exception + unit" where
  "jose_validate_claims claims now =
     first_error
       [jose_validate_iat claims,
        jose_validate_nbf claims now,
        jose_validate_exp claims now,
        refuse_claim claims ''aud'',
        string_claim claims ''sub'',
        string_claim claims ''jti'',
        refuse_claim claims ''at_hash'']"

definition jose_jwt_decode :: "int \<Rightarrow> token \<Rightarrow> string \<Rightarrow> string list \<Rightarrow> exception + pydict" where
  "jose_jwt_decode now tok key algorithms =
     (case jws_verify tok key algorithms of
        Inl e \<Rightarrow> Inl (JWTError e)
      | Inr claims \<Rightarrow>
          (case jose_validate_claims claims now of
             Inl e \<Rightarrow> Inl e
           | Inr u \<Rightarrow> Inr claims))"

text \<open>
  PyJWT (the releases whose \<^verbatim>\<open>encode\<close> returns the \<^verbatim>\<open>str\<close> that this program puts into a
  link) validates, in this order: \<^verbatim>\<open>iat\<close> and \<^verbatim>\<open>nbf\<close> must convert with \<^verbatim>\<open>int\<close> and not be
  after the current time; \<^verbatim>\<open>exp\<close> must convert and be after the current time, so a token is
  refused from the very second that \<^verbatim>\<open>exp\<close> names (\<^verbatim>\<open>exp <= now\<close>), one second earlier than
  python-jose refuses it; a value that does not convert is the library's error; an
  \<^verbatim>\<open>aud\<close> with a true value is refused since the program names no audience; \<^verbatim>\<open>sub\<close> and
  \<^verbatim>\<open>jti\<close> must be strings.
\<close>

definition pyjwt_int_claim :: "pydict \<Rightarrow> string \<Rightarrow> exception + int option" where
  "pyjwt_int_claim claims k =
     (case map_of claims k of
        None \<Rightarrow> Inr None
      | Some v \<Rightarrow>
          (case py_int v of
             Inl e \<Rightarrow> Inl (JWTError DecodeError)
           | Inr n \<Rightarrow> Inr (Some n)))"

definition pyjwt_not_after :: "pydict \<Rightarrow> string \<Rightarrow> int \<Rightarrow> exception + unit" where
  "pyjwt_not_after claims k now =
     (case pyjwt_int_claim claims k of
        Inl e \<Rightarrow> Inl e
      | Inr None \<Rightarrow> Inr ()
      | Inr (Some t) \<Rightarrow> if t > now then Inl (JWTError ClaimsError) else Inr ())"

definition pyjwt_validate_exp :: "pydict \<Rightarrow> int \<Rightarrow> exception + unit" where
  "pyjwt_validate_exp claims now =
     (case pyjwt_int_claim claims ''exp'' of
        Inl e \<Rightarrow> Inl e
      | Inr None \<Rightarrow> Inr ()
      | Inr (Some e) \<Rightarrow> if e \<le> now then Inl (JWTError ExpiredSignatureError) else Inr ())"

definition pyjwt_validate_aud :: "pydict \<Rightarrow> exception + unit" where
  "pyjwt_validate_aud claims =
     (case map_of claims ''aud'' of
        None \<Rightarrow> Inr ()
      | Some JNull \<Rightarrow> Inr ()
      | Some (JInt n) \<Rightarrow> if n = 0 then Inr () else Inl (JWTError ClaimsError)
      | Some (JStr s) \<Rightarrow> if s = [] then Inr () else Inl (JWTError ClaimsError))"

definition pyjwt_validate_claims :: "pydict \<Rightarrow> int \<Rightarrow> exception + unit" where
  "pyjwt_validate_claims claims now =
     first_error
       [pyjwt_not_after claims ''iat'' now,
        pyjwt_not_after claims ''nbf'' now,
        pyjwt_validate_exp claims now,
        pyjwt_validate_aud claims,
        string_claim claims ''sub'',
        string_claim claims ''jti'']"

definition pyjwt_decode :: "int \<Rightarrow> token \<Rightarrow> string \<Rightarrow> string list \<Rightarrow> exception + pydict" where
  "pyjwt_decode now tok key algorithms =
     (case jws_verify tok key algorithms of
        Inl e \<Rightarrow> Inl (JWTError e)
      | Inr claims \<Rightarrow>
          (case pyjwt_validate_claims claims now of
             Inl e \<Rightarrow> Inl e
           | Inr u \<Rightarrow> Inr claims))"

subsection \<open>The users table\<close>

record user =
  user_id :: nat
  email :: string
  hashed_password :: string
  refresh_token :: "token option"
  is_verified :: bool
  avatar_url :: "string option"

type_synonym session = "user list"

text \<open>\<^verbatim>\<open>db.query(User).filter(User.email == v).first()\<close>: the first row, or \<^verbatim>\<open>None\<close>.\<close>

definition query_user_by_email :: "session \<Rightarrow> json \<Rightarrow> user option" where
  "query_user_by_email db v = find (\<lambda>u. JStr (email u) = v) db"

definition get_user_by_email :: "session \<Rightarrow> string \<Rightarrow> user option" where
  "get_user_by_email db e = query_user_by_email db (JStr e)"

text \<open>
  Assigning to an attribute of the row that a query returned and committing: the first
  row that the query matches is the one that changes.
\<close>

fun commit_first :: "('a \<Rightarrow> bool) \<Rightarrow> ('a \<Rightarrow> 'a) \<Rightarrow> 'a list \<Rightarrow> 'a list" where
  "commit_first P f [] = []"
| "commit_first P f (x # xs) = (if P x then f x # xs else x # commit_first P f xs)"

subsection \<open>\<^verbatim>\<open>src/tokens_access.py\<close>\<close>

definition ALGORITHM :: string where
  "ALGORITHM = ''HS256''"

definition ACCESS_TOKEN_EXPIRE_MINUTES :: int where
  "ACCESS_TOKEN_EXPIRE_MINUTES = 30"

definition REFRESH_TOKEN_EXPIRE_MINUTES :: int where
  "REFRESH_TOKEN_EXPIRE_MINUTES = 1440"

text \<open>
  Both issuers compute the expiry with the same statement, which differs in the default
  only: \<^verbatim>\<open>if expires_delta: expire = utcnow() + timedelta(seconds=int(expires_delta))\<close>
  \<^verbatim>\<open>else: expire = utcnow() + timedelta(<default>)\<close>.  The test is Python's truth test:
  \<^verbatim>\<open>None\<close> and a zero are false.  The \<^verbatim>\<open>exp\<close> that \<^verbatim>\<open>jwt.encode\<close> writes for the
  \<^verbatim>\<open>datetime\<close> is its whole epoch seconds.
\<close>

definition token_expire :: "int \<Rightarrow> pyfloat option \<Rightarrow> int \<Rightarrow> exception + int" where
  "token_expire now expires_delta default_seconds =
     (case expires_delta of
        None \<Rightarrow> datetime_add now default_seconds
      | Some x \<Rightarrow> if truthy x then expire_after now x
                  else datetime_add now default_seconds)"

definition create_access_token ::
  "string \<Rightarrow> int \<Rightarrow> pydict \<Rightarrow> pyfloat option \<Rightarrow> exception + token" where
  "create_access_token key now data expires_delta =
     (let to_encode = data;
          expire = token_expire now expires_delta (15 * 60)
      in case expire of
           Inl e \<Rightarrow> Inl e
         | Inr t \<Rightarrow> Inr (jwt_encode (dict_update ''exp'' (JInt t) to_encode) key ALGORITHM))"

text \<open>
  In \<^verbatim>\<open>create_refresh_token\<close> the token is built first; then \<^verbatim>\<open>data["sub"]\<close> is read
  and the row queried.  The query's result is used unchecked: when it is \<^verbatim>\<open>None\<close>, the
  assignment \<^verbatim>\<open>user.refresh_token = ...\<close> raises \<^verbatim>\<open>AttributeError\<close>.
\<close>

definition create_refresh_token ::
  "string \<Rightarrow> int \<Rightarrow> pydict \<Rightarrow> session \<Rightarrow> pyfloat option \<Rightarrow> exception + (token \<times> session)" where
  "create_refresh_token key now data db expires_delta =
     (let to_encode = data;
          expire = token_expire now expires_delta ((60 * 24) * 60)
      in case expire of
           Inl e \<Rightarrow> Inl e
         | Inr t \<Rightarrow>
             (let encoded_refresh_token =
                    jwt_encode (dict_update ''exp'' (JInt t) to_encode) key ALGORITHM
              in case dict_item data ''sub'' of
                   Inl e \<Rightarrow> Inl e
                 | Inr sub \<Rightarrow>
                     (case query_user_by_email db sub of
                        None \<Rightarrow> Inl (AttributeError ''refresh_token'')
                      | Some u \<Rightarrow>
                          Inr (encoded_refresh_token,
                               commit_first (\<lambda>u. JStr (email u) = sub)
                                 (\<lambda>u. u\<lparr>refresh_token := Some encoded_refresh_token\<rparr>) db))))"

definition get_login_from_refresh_token :: "string \<Rightarrow> int \<Rightarrow> token \<Rightarrow> exception + json" where
  "get_login_from_refresh_token key now refresh_tok =
     (case jose_jwt_decode now refresh_tok key [ALGORITHM] of
        Inr payload \<Rightarrow> Inr (dict_get payload ''sub'')
      | Inl (JWTError e) \<Rightarrow> Inr JNull
      | Inl e \<Rightarrow> Inl e)"

text \<open>
  The result dictionary of \<^verbatim>\<open>create_access_token_from_refresh_token\<close> is the pair of
  its two values, \<^verbatim>\<open>access_token\<close> and \<^verbatim>\<open>token_type\<close>; the lifetime it passes on is
  \<^verbatim>\<open>timedelta(minutes=ACCESS_TOKEN_EXPIRE_MINUTES).total_seconds()\<close>.
\<close>

definition create_access_token_from_refresh_token ::
  "string \<Rightarrow> int \<Rightarrow> token \<Rightarrow> session \<Rightarrow> exception + (token \<times> string)" where
  "create_access_token_from_refresh_token key now refresh_tok db =
     (case get_login_from_refresh_token key now refresh_tok of
        Inl e \<Rightarrow> Inl e
      | Inr login \<Rightarrow>
          if login = JNull then Inl (HTTPException 401 ''Refresh token is invalid'' [])
          else (case query_user_by_email db login of
                  None \<Rightarrow> Inl (HTTPException 401 ''User not found'' [])
                | Some u \<Rightarrow>
                    (let access_token_expires = Finite (of_int (ACCESS_TOKEN_EXPIRE_MINUTES * 60))
                     in case create_access_token key now [(''sub'', JStr (email u))]
                               (Some access_token_expires) of
                          Inl e \<Rightarrow> Inl e
                        | Inr access_token \<Rightarrow> Inr (access_token, ''bearer''))))"

text \<open>
  The credential that reaches \<^verbatim>\<open>get_current_user\<close> is a token, with or without the
  scheme prefix \<^verbatim>\<open>"Bearer "\<close>; \<^verbatim>\<open>token.removeprefix("Bearer ")\<close> drops the prefix when it
  is there.
\<close>

datatype bearer = Prefixed token | Plain token

fun removeprefix_Bearer :: "bearer \<Rightarrow> token" where
  "removeprefix_Bearer (Prefixed t) = t"
| "removeprefix_Bearer (Plain t) = t"

definition credentials_exception :: exception where
  "credentials_exception =
     HTTPException 401 ''Could not validate credentials'' [(''WWW-Authenticate'', ''Bearer'')]"

definition get_current_user :: "string \<Rightarrow> int \<Rightarrow> bearer \<Rightarrow> session \<Rightarrow> exception + user" where
  "get_current_user key now cred db =
     (let tok = removeprefix_Bearer cred
      in case jose_jwt_decode now tok key [ALGORITHM] of
           Inl (JWTError e) \<Rightarrow> Inl credentials_exception
         | Inl e \<Rightarrow> Inl e
         | Inr payload \<Rightarrow>
             (case dict_item payload ''sub'' of
                Inl e \<Rightarrow> Inl e
              | Inr em \<Rightarrow>
                  if em = JNull then Inl credentials_exception
                  else (case query_user_by_email db em of
                          None \<Rightarrow> Inl credentials_exception
                        | Some u \<Rightarrow> Inr u)))"

subsection \<open>\<^verbatim>\<open>utils/token.py\<close>\<close>

definition VERIFICATION_TOKEN_EXPIRE_MINUTES :: int where
  "VERIFICATION_TOKEN_EXPIRE_MINUTES = 60"

definition generate_verification_token :: "string \<Rightarrow> int \<Rightarrow> string \<Rightarrow> exception + token" where
  "generate_verification_token key now em =
     (case datetime_add now (VERIFICATION_TOKEN_EXPIRE_MINUTES * 60) of
        Inl e \<Rightarrow> Inl e
      | Inr expiration \<Rightarrow>
          (let payload = [(''sub'', JStr em), (''exp'', JInt expiration)]
           in Inr (jwt_encode payload key ALGORITHM)))"

definition verify_verification_token ::
  "string \<Rightarrow> int \<Rightarrow> string \<Rightarrow> token \<Rightarrow> exception + bool" where
  "verify_verification_token key now em tok =
     (case pyjwt_decode now tok key [ALGORITHM] of
        Inr payload \<Rightarrow>
          (case dict_item payload ''sub'' of
             Inl e \<Rightarrow> Inl e
           | Inr sub \<Rightarrow> if sub = JStr em then Inr True else Inr False)
      | Inl (JWTError e) \<Rightarrow> Inr False
      | Inl e \<Rightarrow> Inl e)"

text \<open>The \<^verbatim>\<open>exp\<close> claim a token carries, read without any verification.\<close>

definition token_exp :: "token \<Rightarrow> json option" where
  "token_exp tok = (case tok of JWS alg claims sg \<Rightarrow> map_of claims ''exp'' | Text s \<Rightarrow> None)"

subsection \<open>Rows used for concrete evaluation\<close>

definition alice :: user where
  "alice = \<lparr>user_id = 1, email = ''a@example.com'', hashed_password = ''h1'',
            refresh_token = None, is_verified = True, avatar_url = None\<rparr>"

definition bob :: user where
  "bob = \<lparr>user_id = 2, email = ''b@example.com'', hashed_password = ''h2'',
          refresh_token = None, is_verified = True, avatar_url = None\<rparr>"

section \<open>Properties\<close>

subsection \<open>Dictionaries, dates and lifetimes\<close>

lemma map_of_dict_update: "map_of (dict_update k v d) = (map_of d)(k \<mapsto> v)"
  by (simp add: dict_update_def update_conv')

lemma token_exp_encode: "token_exp (jwt_encode claims key alg) = map_of claims ''exp''"
  by (simp add: token_exp_def jwt_encode_def)

lemma timedelta_in_range:
  assumes "datetime_ok t" and "datetime_ok (t + n)"
  shows "timedelta_seconds n = Inr n"
proof -
  from assms have lo: "- 315537897599 \<le> n" and hi: "n \<le> 315537897599"
    by (simp_all add: datetime_ok_def)
  from hi have "n div 86400 \<le> 315537897599 div 86400" by (rule zdiv_mono1) simp
  moreover from lo have "(- 315537897599) div 86400 \<le> n div 86400" by (rule zdiv_mono1) simp
  ultimately show ?thesis by (simp add: timedelta_seconds_def)
qed

lemma expire_after_finite:
  assumes "datetime_ok t"
  shows "expire_after t (Finite q) =
           (if datetime_ok (t + trunc q) then Inr (t + trunc q) else Inl OverflowError)"
proof (cases "datetime_ok (t + trunc q)")
  case True
  with assms show ?thesis
    by (simp add: expire_after_def float_int_def timedelta_in_range datetime_add_def)
next
  case False
  then show ?thesis
    by (simp add: expire_after_def float_int_def timedelta_seconds_def datetime_add_def)
qed

lemma create_access_token_eq:
  "create_access_token key now data d =
     (case token_expire now d (15 * 60) of
        Inl e \<Rightarrow> Inl e
      | Inr t \<Rightarrow> Inr (jwt_encode (dict_update ''exp'' (JInt t) data) key ALGORITHM))"
  by (simp add: create_access_token_def Let_def)

subsection \<open>The libraries on tokens this program issues\<close>

lemma jws_verify_encode:
  "jws_verify (jwt_encode claims key alg) key' algs =
     (if alg \<notin> set algs then Inl DecodeError
      else if key' = key then Inr claims else Inl SignatureError)"
  by (auto simp: jws_verify_def jwt_encode_def)

lemma jose_validate_issued:
  "jose_validate_claims [(''sub'', JStr s), (''exp'', JInt e)] now =
     (if e < now then Inl (JWTError ExpiredSignatureError) else Inr ())"
  by (simp add: jose_validate_claims_def jose_validate_iat_def jose_validate_nbf_def
      jose_validate_exp_def jose_int_claim_def py_int_def refuse_claim_def string_claim_def)

lemma pyjwt_validate_issued:
  "pyjwt_validate_claims [(''sub'', JStr s), (''exp'', JInt e)] now =
     (if e \<le> now then Inl (JWTError ExpiredSignatureError) else Inr ())"
  by (simp add: pyjwt_validate_claims_def pyjwt_not_after_def pyjwt_validate_exp_def
      pyjwt_int_claim_def py_int_def pyjwt_validate_aud_def string_claim_def)

lemma jose_decode_issued:
  "jose_jwt_decode now (jwt_encode [(''sub'', JStr s), (''exp'', JInt e)] key' ALGORITHM)
     key [ALGORITHM] =
     (if key \<noteq> key' then Inl (JWTError SignatureError)
      else if e < now then Inl (JWTError ExpiredSignatureError)
      else Inr [(''sub'', JStr s), (''exp'', JInt e)])"
  by (simp add: jose_jwt_decode_def jws_verify_encode jose_validate_issued)

lemma pyjwt_decode_issued:
  "pyjwt_decode now (jwt_encode [(''sub'', JStr s), (''exp'', JInt e)] key' ALGORITHM)
     key [ALGORITHM] =
     (if key \<noteq> key' then Inl (JWTError SignatureError)
      else if e \<le> now then Inl (JWTError ExpiredSignatureError)
      else Inr [(''sub'', JStr s), (''exp'', JInt e)])"
  by (simp add: pyjwt_decode_def jws_verify_encode pyjwt_validate_issued)

lemma get_login_issued:
  "get_login_from_refresh_token key now
     (jwt_encode [(''sub'', JStr s), (''exp'', JInt e)] key' ALGORITHM) =
     Inr (if key = key' \<and> now \<le> e then JStr s else JNull)"
  by (simp add: get_login_from_refresh_token_def jose_decode_issued dict_get_def)

lemma verify_issued:
  "verify_verification_token key now em
     (jwt_encode [(''sub'', JStr s), (''exp'', JInt e)] key' ALGORITHM) =
     Inr (key = key' \<and> s = em \<and> now < e)"
  by (auto simp: verify_verification_token_def pyjwt_decode_issued dict_item_def)

lemma jose_jwt_decode_Inr:
  assumes "jose_jwt_decode now tok key algs = Inr payload"
  shows "\<exists>alg sg. tok = JWS alg payload sg"
  using assms
  by (auto simp: jose_jwt_decode_def jws_verify_def
      split: sum.splits token.splits if_splits)

subsection \<open>Default lifetime of an access token\<close>

text \<open>
  Claim C4, as amended.  Called without a lifetime, \<open>create_access_token\<close> issues a token
  that expires 15 minutes after the current time; the 30 minutes of
  \<open>ACCESS_TOKEN_EXPIRE_MINUTES\<close> are what the login and rotation endpoints pass explicitly,
  and a token issued with that lifetime expires 30 minutes after the current time.  (In
  either case nothing is issued, and \<^verbatim>\<open>OverflowError\<close> raised, if that time is past the
  year 9999.)
\<close>

theorem access_token_default_lifetime:
  "create_access_token key now data None =
     (if datetime_ok (now + 15 * 60)
      then Inr (jwt_encode (dict_update ''exp'' (JInt (now + 15 * 60)) data) key ALGORITHM)
      else Inl OverflowError) \<and>
   token_exp (jwt_encode (dict_update ''exp'' (JInt (now + 15 * 60)) data) key ALGORITHM)
     = Some (JInt (now + 15 * 60)) \<and>
   create_access_token key now data (Some (Finite (of_int (ACCESS_TOKEN_EXPIRE_MINUTES * 60)))) =
     (if datetime_ok (now + 30 * 60)
      then Inr (jwt_encode (dict_update ''exp'' (JInt (now + 30 * 60)) data) key ALGORITHM)
      else Inl OverflowError)"
proof -
  have "token_expire now None (15 * 60) =
      (if datetime_ok (now + 15 * 60) then Inr (now + 15 * 60) else Inl OverflowError)"
    by (simp add: token_expire_def datetime_add_def)
  moreover have "token_expire now (Some (Finite (of_int (ACCESS_TOKEN_EXPIRE_MINUTES * 60)))) (15 * 60) =
      (if datetime_ok (now + 30 * 60) then Inr (now + 30 * 60) else Inl OverflowError)"
    by (simp add: token_expire_def truthy_def expire_after_def float_int_def trunc_def
        timedelta_seconds_def datetime_add_def ACCESS_TOKEN_EXPIRE_MINUTES_def)
  ultimately show ?thesis
    by (simp add: create_access_token_eq token_exp_encode map_of_dict_update)
qed

text \<open>
  Claim C4 as stated fails: issued at second 1000 without a lifetime, the token expires at
  second 1900, not at second 2800.
\<close>

theorem access_token_default_counterexample:
  "create_access_token ''k'' 1000 [(''sub'', JStr ''a@example.com'')] None
     = Inr (jwt_encode [(''sub'', JStr ''a@example.com''), (''exp'', JInt 1900)] ''k'' ALGORITHM) \<and>
   token_exp (jwt_encode [(''sub'', JStr ''a@example.com''), (''exp'', JInt 1900)] ''k'' ALGORITHM)
     = Some (JInt 1900) \<and>
   (1900 :: int) \<noteq> 1000 + 30 * 60"
  by (simp add: create_access_token_eq token_expire_def datetime_add_def datetime_ok_def
      dict_update_def token_exp_encode)

subsection \<open>Decoding and expiry\<close>






subsection \<open>Authenticating a bearer token\<close>

text \<open>
  Claim C2, at the input where the code leaves it.  A token that is validly signed and
  not expired but carries no \<^verbatim>\<open>sub\<close> makes \<^verbatim>\<open>payload["sub"]\<close> raise \<^verbatim>\<open>KeyError\<close>, which
  the handler for \<^verbatim>\<open>JWTError\<close> does not catch: \<open>get_current_user\<close> fails with that
  exception and not with the 401 of \<open>credentials_exception\<close>.
\<close>

theorem get_current_user_missing_sub:
  "get_current_user ''k'' 0 (Plain (jwt_encode [(''exp'', JInt 100)] ''k'' ALGORITHM)) []
     = Inl (KeyError ''sub'')"
  by (simp add: get_current_user_def jose_jwt_decode_def jws_verify_encode
      jose_validate_claims_def jose_validate_iat_def jose_validate_nbf_def
      jose_validate_exp_def jose_int_claim_def py_int_def refuse_claim_def string_claim_def
      dict_item_def)

text \<open>
  Claim C3.  Whenever \<open>get_current_user\<close> returns a user for a token whose claims name
  the subject \<open>a\<close>, that user's email is \<open>a\<close>; so for a token for \<open>a\<close> and any other
  address \<open>b\<close> it never returns a row whose email is \<open>b\<close>, whatever the table holds.
\<close>

theorem get_current_user_subject:
  assumes "removeprefix_Bearer cred = JWS alg claims sg"
      and "map_of claims ''sub'' = Some (JStr a)"
      and "get_current_user key now cred db = Inr u"
  shows "email u = a \<and> (a \<noteq> b \<longrightarrow> email u \<noteq> b)"
proof -
  from assms(3) obtain payload where
    dec: "jose_jwt_decode now (removeprefix_Bearer cred) key [ALGORITHM] = Inr payload"
    by (auto simp: get_current_user_def Let_def split: sum.splits exception.splits)
  from jose_jwt_decode_Inr [OF dec] assms(1) have "payload = claims" by auto
  with assms dec have "query_user_by_email db (JStr a) = Some u"
    by (auto simp: get_current_user_def dict_item_def Let_def split: if_splits option.splits)
  then have "email u = a"
    by (auto simp: query_user_by_email_def find_Some_iff)
  then show ?thesis by simp
qed

lemma get_current_user_alice:
  "get_current_user ''k'' 1000
     (Prefixed (jwt_encode [(''sub'', JStr ''a@example.com''), (''exp'', JInt 2800)] ''k'' ALGORITHM))
     [bob, alice] = Inr alice"
  by (simp add: get_current_user_def jose_decode_issued
      dict_item_def query_user_by_email_def alice_def bob_def)

theorem get_current_user_subject_witness:
  "get_current_user ''k'' 1000
     (Prefixed (jwt_encode [(''sub'', JStr ''a@example.com''), (''exp'', JInt 2800)] ''k'' ALGORITHM))
     [bob, alice] = Inr alice \<and>
   email alice = ''a@example.com'' \<and> email alice \<noteq> ''b@example.com''"
  using get_current_user_subject
      [of "Prefixed (jwt_encode [(''sub'', JStr ''a@example.com''), (''exp'', JInt 2800)] ''k'' ALGORITHM)"
      ALGORITHM "[(''sub'', JStr ''a@example.com''), (''exp'', JInt 2800)]"
      "HMAC ''k'' ALGORITHM [(''sub'', JStr ''a@example.com''), (''exp'', JInt 2800)]"
      "''a@example.com''" "''k''" 1000 "[bob, alice]" alice "''b@example.com''"]
    get_current_user_alice
  by (simp add: jwt_encode_def)

subsection \<open>Issuing refresh tokens\<close>

lemma find_commit_first:
  assumes "\<And>x. P x \<Longrightarrow> P (f x)"
  shows "find P (commit_first P f xs) = map_option f (find P xs)"
  using assms by (induction xs) auto

lemma commit_first_twice:
  assumes "\<And>x. P x \<Longrightarrow> P (f x)"
  shows "commit_first P g (commit_first P f xs) = commit_first P (\<lambda>x. g (f x)) xs"
  using assms by (induction xs) auto

lemma length_commit_first: "length (commit_first P f xs) = length xs"
  by (induction xs) auto

lemma commit_first_other:
  assumes "i < length xs" and "\<not> P (xs ! i)"
  shows "commit_first P f xs ! i = xs ! i"
  using assms
proof (induction xs arbitrary: i)
  case Nil
  then show ?case by simp
next
  case (Cons x xs)
  then show ?case by (cases i) auto
qed

lemma create_refresh_token_eq:
  assumes "token_expire now d ((60 * 24) * 60) = Inr t"
      and "query_user_by_email db (JStr s) = Some u"
  shows "create_refresh_token key now [(''sub'', JStr s)] db d =
           Inr (jwt_encode [(''sub'', JStr s), (''exp'', JInt t)] key ALGORITHM,
                commit_first (\<lambda>u. email u = s)
                  (\<lambda>u. u\<lparr>refresh_token :=
                     Some (jwt_encode [(''sub'', JStr s), (''exp'', JInt t)] key ALGORITHM)\<rparr>) db)"
  using assms
  by (simp add: create_refresh_token_def Let_def dict_item_def dict_update_def)

text \<open>
  Claim C5, at the input where the code leaves it.  For a subject that no row of the table
  has, the query returns \<^verbatim>\<open>None\<close> and the assignment \<^verbatim>\<open>user.refresh_token = ...\<close> raises
  \<^verbatim>\<open>AttributeError\<close>: \<open>create_refresh_token\<close> has no check of the query's result and no
  error of its own for an absent user.
\<close>

theorem create_refresh_token_absent_user:
  "create_refresh_token ''k'' 0 [(''sub'', JStr ''ghost@example.com'')] [] None
     = Inl (AttributeError ''refresh_token'')"
  by (simp add: create_refresh_token_def token_expire_def datetime_add_def datetime_ok_def
      dict_item_def query_user_by_email_def Let_def)

text \<open>
  When the subject's row exists and the expiry is a date, \<open>create_refresh_token\<close> returns
  the token it built for the subject and that expiry, and the table differs from the one
  before in the subject's row only, which now holds that token.
\<close>

theorem create_refresh_token_existing_user:
  assumes "token_expire now d ((60 * 24) * 60) = Inr t"
      and "query_user_by_email db (JStr s) = Some u"
  shows "\<exists>db'. create_refresh_token key now [(''sub'', JStr s)] db d =
             Inr (jwt_encode [(''sub'', JStr s), (''exp'', JInt t)] key ALGORITHM, db') \<and>
           query_user_by_email db' (JStr s) =
             Some (u\<lparr>refresh_token :=
                Some (jwt_encode [(''sub'', JStr s), (''exp'', JInt t)] key ALGORITHM)\<rparr>) \<and>
           length db' = length db \<and>
           (\<forall>i < length db. email (db ! i) \<noteq> s \<longrightarrow> db' ! i = db ! i)"
proof -
  let ?tok = "jwt_encode [(''sub'', JStr s), (''exp'', JInt t)] key ALGORITHM"
  let ?db' = "commit_first (\<lambda>u. email u = s) (\<lambda>u. u\<lparr>refresh_token := Some ?tok\<rparr>) db"
  have "create_refresh_token key now [(''sub'', JStr s)] db d = Inr (?tok, ?db')"
    by (rule create_refresh_token_eq [OF assms])
  moreover have "query_user_by_email ?db' (JStr s)
      = map_option (\<lambda>u. u\<lparr>refresh_token := Some ?tok\<rparr>) (query_user_by_email db (JStr s))"
    by (simp add: query_user_by_email_def find_commit_first)
  moreover have "length ?db' = length db"
    by (rule length_commit_first)
  moreover have "\<forall>i < length db. email (db ! i) \<noteq> s \<longrightarrow> ?db' ! i = db ! i"
    by (simp add: commit_first_other)
  ultimately show ?thesis using assms(2) by simp
qed

theorem create_refresh_token_existing_user_witness:
  "\<exists>db'. create_refresh_token ''k'' 1000 [(''sub'', JStr ''a@example.com'')] [bob, alice] None =
       Inr (jwt_encode [(''sub'', JStr ''a@example.com''), (''exp'', JInt 87400)] ''k'' ALGORITHM,
            db') \<and>
     query_user_by_email db' (JStr ''a@example.com'') =
       Some (alice\<lparr>refresh_token := Some (jwt_encode
          [(''sub'', JStr ''a@example.com''), (''exp'', JInt 87400)] ''k'' ALGORITHM)\<rparr>) \<and>
     db' ! 0 = bob"
  using create_refresh_token_existing_user [of 1000 None 87400 "[bob, alice]"
      "''a@example.com''" alice "''k''"]
  by (auto simp: token_expire_def datetime_add_def datetime_ok_def query_user_by_email_def
      alice_def bob_def)

text \<open>
  Claim C8.  A row has one \<open>refresh_token\<close> field, so a user holds at most one refresh
  token.  For a subject whose row exists, two issuances in sequence both succeed; the
  token read from the subject's row after the first is the first token, and after the
  second it is the second token.  The second issuance leaves the table exactly as it
  would have left the original table, the original with the second token written into
  the subject's row: nothing of the first token remains, and no row of another user has
  changed.
\<close>

theorem refresh_token_overwrite:
  assumes row: "query_user_by_email db (JStr s) = Some u"
      and e1: "token_expire t1 d1 ((60 * 24) * 60) = Inr x1"
      and e2: "token_expire t2 d2 ((60 * 24) * 60) = Inr x2"
      and tok1: "tok1 = jwt_encode [(''sub'', JStr s), (''exp'', JInt x1)] key ALGORITHM"
      and tok2: "tok2 = jwt_encode [(''sub'', JStr s), (''exp'', JInt x2)] key ALGORITHM"
  shows "\<exists>db1 db2.
           create_refresh_token key t1 [(''sub'', JStr s)] db d1 = Inr (tok1, db1) \<and>
           get_user_by_email db1 s = Some (u\<lparr>refresh_token := Some tok1\<rparr>) \<and>
           create_refresh_token key t2 [(''sub'', JStr s)] db1 d2 = Inr (tok2, db2) \<and>
           get_user_by_email db2 s = Some (u\<lparr>refresh_token := Some tok2\<rparr>) \<and>
           create_refresh_token key t2 [(''sub'', JStr s)] db d2 = Inr (tok2, db2) \<and>
           db2 = commit_first (\<lambda>u. email u = s) (\<lambda>u. u\<lparr>refresh_token := Some tok2\<rparr>) db \<and>
           length db2 = length db \<and>
           (\<forall>i < length db. email (db ! i) \<noteq> s \<longrightarrow> db2 ! i = db ! i)"
proof -
  let ?P = "\<lambda>u. email u = s"
  let ?db1 = "commit_first ?P (\<lambda>u. u\<lparr>refresh_token := Some tok1\<rparr>) db"
  let ?db2 = "commit_first ?P (\<lambda>u. u\<lparr>refresh_token := Some tok2\<rparr>) db"
  have first: "create_refresh_token key t1 [(''sub'', JStr s)] db d1 = Inr (tok1, ?db1)"
    unfolding tok1 by (rule create_refresh_token_eq [OF e1 row])
  have row1: "query_user_by_email ?db1 (JStr s) = Some (u\<lparr>refresh_token := Some tok1\<rparr>)"
    using row by (simp add: query_user_by_email_def find_commit_first)
  have "create_refresh_token key t2 [(''sub'', JStr s)] ?db1 d2 =
      Inr (tok2, commit_first ?P (\<lambda>u. u\<lparr>refresh_token := Some tok2\<rparr>) ?db1)"
    unfolding tok2 by (rule create_refresh_token_eq [OF e2 row1])
  moreover have "commit_first ?P (\<lambda>u. u\<lparr>refresh_token := Some tok2\<rparr>) ?db1 = ?db2"
    by (simp add: commit_first_twice)
  ultimately have second: "create_refresh_token key t2 [(''sub'', JStr s)] ?db1 d2 = Inr (tok2, ?db2)"
    by simp
  have direct: "create_refresh_token key t2 [(''sub'', JStr s)] db d2 = Inr (tok2, ?db2)"
    unfolding tok2 by (rule create_refresh_token_eq [OF e2 row])
  have row2: "query_user_by_email ?db2 (JStr s) = Some (u\<lparr>refresh_token := Some tok2\<rparr>)"
    using row by (simp add: query_user_by_email_def find_commit_first)
  have frame: "\<forall>i < length db. email (db ! i) \<noteq> s \<longrightarrow> ?db2 ! i = db ! i"
    by (simp add: commit_first_other)
  from first row1 second row2 direct frame show ?thesis
    by (auto simp: get_user_by_email_def length_commit_first)
qed

theorem refresh_token_overwrite_witness:
  "\<exists>db1 db2.
     create_refresh_token ''k'' 1000 [(''sub'', JStr ''a@example.com'')] [bob, alice]
       (Some (Finite 60)) =
       Inr (jwt_encode [(''sub'', JStr ''a@example.com''), (''exp'', JInt 1060)] ''k'' ALGORITHM,
            db1) \<and>
     create_refresh_token ''k'' 2000 [(''sub'', JStr ''a@example.com'')] db1 None =
       Inr (jwt_encode [(''sub'', JStr ''a@example.com''), (''exp'', JInt 88400)] ''k'' ALGORITHM,
            db2) \<and>
     get_user_by_email db2 ''a@example.com'' =
       Some (alice\<lparr>refresh_token := Some (jwt_encode
          [(''sub'', JStr ''a@example.com''), (''exp'', JInt 88400)] ''k'' ALGORITHM)\<rparr>) \<and>
     db2 ! 0 = bob"
proof -
  have row: "query_user_by_email [bob, alice] (JStr ''a@example.com'') = Some alice"
    by (simp add: query_user_by_email_def alice_def bob_def)
  have e1: "token_expire 1000 (Some (Finite 60)) ((60 * 24) * 60) = Inr 1060"
    by (simp add: token_expire_def truthy_def expire_after_def float_int_def trunc_def
        timedelta_seconds_def datetime_add_def datetime_ok_def)
  have e2: "token_expire 2000 None ((60 * 24) * 60) = Inr 88400"
    by (simp add: token_expire_def datetime_add_def datetime_ok_def)
  have other: "email ([bob, alice] ! 0) \<noteq> ''a@example.com''"
    by (simp add: bob_def)
  from refresh_token_overwrite [OF row e1 e2 refl refl, of "''k''"] other show ?thesis
    by fastforce
qed

text \<open>
  Rotation.  A refresh token issued for an existing user with a positive lifetime, and
  presented no later than its expiry, is exchanged for an access token for the same
  subject that expires 30 minutes after the exchange.
\<close>

theorem rotate_access_token:
  assumes row: "query_user_by_email db (JStr s) = Some u"
      and "0 < q" and "datetime_ok t0" and "datetime_ok (t0 + \<lfloor>q\<rfloor>)"
      and "t \<le> t0 + \<lfloor>q\<rfloor>" and "datetime_ok (t + 30 * 60)"
  shows "\<exists>rt db'.
           create_refresh_token key t0 [(''sub'', JStr s)] db (Some (Finite q)) = Inr (rt, db') \<and>
           create_access_token_from_refresh_token key t rt db' =
             Inr (jwt_encode [(''sub'', JStr s), (''exp'', JInt (t + 30 * 60))] key ALGORITHM,
                  ''bearer'')"
proof -
  let ?rt = "jwt_encode [(''sub'', JStr s), (''exp'', JInt (t0 + \<lfloor>q\<rfloor>))] key ALGORITHM"
  from \<open>0 < q\<close> have tr: "trunc q = \<lfloor>q\<rfloor>" by (simp add: trunc_def)
  have e: "token_expire t0 (Some (Finite q)) ((60 * 24) * 60) = Inr (t0 + \<lfloor>q\<rfloor>)"
    using assms(2-4) by (simp add: token_expire_def truthy_def expire_after_finite tr)
  from create_refresh_token_existing_user [OF e row, of key] obtain db' where
    issued: "create_refresh_token key t0 [(''sub'', JStr s)] db (Some (Finite q)) = Inr (?rt, db')"
    and row': "query_user_by_email db' (JStr s) = Some (u\<lparr>refresh_token := Some ?rt\<rparr>)"
    by blast
  from row have em: "email u = s"
    by (auto simp: query_user_by_email_def find_Some_iff)
  have login: "get_login_from_refresh_token key t ?rt = Inr (JStr s)"
    using \<open>t \<le> t0 + \<lfloor>q\<rfloor>\<close> by (simp add: get_login_issued)
  have acc: "create_access_token key t [(''sub'', JStr s)] (Some (Finite 1800)) =
      Inr (jwt_encode [(''sub'', JStr s), (''exp'', JInt (t + 1800))] key ALGORITHM)"
    using \<open>datetime_ok (t + 30 * 60)\<close>
    by (simp add: create_access_token_eq token_expire_def truthy_def expire_after_def
        float_int_def trunc_def timedelta_seconds_def datetime_add_def dict_update_def)
  have "create_access_token_from_refresh_token key t ?rt db' =
      Inr (jwt_encode [(''sub'', JStr s), (''exp'', JInt (t + 30 * 60))] key ALGORITHM, ''bearer'')"
    by (simp add: create_access_token_from_refresh_token_def login row' em Let_def acc
        ACCESS_TOKEN_EXPIRE_MINUTES_def)
  with issued show ?thesis by blast
qed

theorem rotate_access_token_witness:
  "\<exists>rt db'.
     create_refresh_token ''k'' 1000 [(''sub'', JStr ''a@example.com'')] [bob, alice]
       (Some (Finite 3600)) = Inr (rt, db') \<and>
     create_access_token_from_refresh_token ''k'' 2800 rt db' =
       Inr (jwt_encode [(''sub'', JStr ''a@example.com''), (''exp'', JInt 4600)] ''k'' ALGORITHM,
            ''bearer'')"
proof -
  have row: "query_user_by_email [bob, alice] (JStr ''a@example.com'') = Some alice"
    by (simp add: query_user_by_email_def alice_def bob_def)
  from rotate_access_token [OF row, of 3600 1000 2800 "''k''"] show ?thesis
    by (simp add: datetime_ok_def)
qed

subsection \<open>Round trip\<close>

text \<open>
  Claim C6.  For every subject and every lifetime that is positive and ends within the
  range of dates, \<open>create_access_token\<close> encodes the claims with that subject and the
  expiry \<open>now\<close> plus the lifetime's whole seconds, and decoding that token under the same
  secret, at the time of issuance or at any time up to the expiry, succeeds and returns
  the same claims, subject and expiry; the login read from it is the subject.
\<close>

theorem encode_decode_roundtrip:
  assumes "0 < ttl" and "datetime_ok now" and "datetime_ok (now + \<lfloor>ttl\<rfloor>)"
  shows "create_access_token key now [(''sub'', JStr subject)] (Some (Finite ttl)) =
           Inr (jwt_encode [(''sub'', JStr subject), (''exp'', JInt (now + \<lfloor>ttl\<rfloor>))] key
                  ALGORITHM) \<and>
         jose_jwt_decode now
           (jwt_encode [(''sub'', JStr subject), (''exp'', JInt (now + \<lfloor>ttl\<rfloor>))] key ALGORITHM)
           key [ALGORITHM]
           = Inr [(''sub'', JStr subject), (''exp'', JInt (now + \<lfloor>ttl\<rfloor>))] \<and>
         (t \<le> now + \<lfloor>ttl\<rfloor> \<longrightarrow>
            jose_jwt_decode t
              (jwt_encode [(''sub'', JStr subject), (''exp'', JInt (now + \<lfloor>ttl\<rfloor>))] key ALGORITHM)
              key [ALGORITHM]
              = Inr [(''sub'', JStr subject), (''exp'', JInt (now + \<lfloor>ttl\<rfloor>))]) \<and>
         get_login_from_refresh_token key now
           (jwt_encode [(''sub'', JStr subject), (''exp'', JInt (now + \<lfloor>ttl\<rfloor>))] key ALGORITHM)
           = Inr (JStr subject)"
proof -
  from \<open>0 < ttl\<close> have tr: "trunc ttl = \<lfloor>ttl\<rfloor>" and nonneg: "0 \<le> \<lfloor>ttl\<rfloor>"
    by (simp_all add: trunc_def)
  have "token_expire now (Some (Finite ttl)) (15 * 60) = Inr (now + \<lfloor>ttl\<rfloor>)"
    using assms by (simp add: token_expire_def truthy_def expire_after_finite tr)
  then have "create_access_token key now [(''sub'', JStr subject)] (Some (Finite ttl)) =
      Inr (jwt_encode [(''sub'', JStr subject), (''exp'', JInt (now + \<lfloor>ttl\<rfloor>))] key ALGORITHM)"
    by (simp add: create_access_token_eq dict_update_def)
  with nonneg show ?thesis
    by (simp add: jose_decode_issued get_login_issued)
qed

theorem encode_decode_roundtrip_witness:
  "create_access_token ''k'' 1000 [(''sub'', JStr ''u@example.com'')] (Some (Finite 3600)) =
     Inr (jwt_encode [(''sub'', JStr ''u@example.com''), (''exp'', JInt 4600)] ''k'' ALGORITHM) \<and>
   jose_jwt_decode 1000
     (jwt_encode [(''sub'', JStr ''u@example.com''), (''exp'', JInt 4600)] ''k'' ALGORITHM)
     ''k'' [ALGORITHM]
     = Inr [(''sub'', JStr ''u@example.com''), (''exp'', JInt 4600)] \<and>
   get_login_from_refresh_token ''k'' 1000
     (jwt_encode [(''sub'', JStr ''u@example.com''), (''exp'', JInt 4600)] ''k'' ALGORITHM)
     = Inr (JStr ''u@example.com'')"
  using encode_decode_roundtrip [of 3600 1000 "''k''" "''u@example.com''" 1000]
  by (simp add: datetime_ok_def)

subsection \<open>Verification tokens\<close>

text \<open>
  Claim C7, as amended.  A verification token issued at \<open>t0\<close> for an email carries the
  expiry \<open>t0 + 3600\<close>, sixty minutes later.  Verifying it returns a boolean, never an
  exception, and the boolean is true exactly when the verifying secret is the signing
  secret, the supplied email is the token's subject and the current time is before the
  expiry: the token verifies at \<open>t0 + 1800\<close>, no longer in the second \<open>t0 + 3600\<close> of
  its expiry, and not at \<open>t0 + 3601\<close>; it never verifies for another email.  A string that
  is no token, and a token whose signature is not the one the secret gives, do not verify
  either.
\<close>

theorem verification_token_window:
  "generate_verification_token key t0 em =
     (if datetime_ok (t0 + 3600)
      then Inr (jwt_encode [(''sub'', JStr em), (''exp'', JInt (t0 + 3600))] key ALGORITHM)
      else Inl OverflowError) \<and>
   token_exp (jwt_encode [(''sub'', JStr em), (''exp'', JInt (t0 + 3600))] key ALGORITHM)
     = Some (JInt (t0 + 3600)) \<and>
   verify_verification_token key' now em'
     (jwt_encode [(''sub'', JStr em), (''exp'', JInt (t0 + 3600))] key ALGORITHM)
     = Inr (key' = key \<and> em' = em \<and> now < t0 + 3600) \<and>
   verify_verification_token key (t0 + 1800) em
     (jwt_encode [(''sub'', JStr em), (''exp'', JInt (t0 + 3600))] key ALGORITHM)
     = Inr True \<and>
   verify_verification_token key (t0 + 3600) em
     (jwt_encode [(''sub'', JStr em), (''exp'', JInt (t0 + 3600))] key ALGORITHM)
     = Inr False \<and>
   verify_verification_token key (t0 + 3601) em
     (jwt_encode [(''sub'', JStr em), (''exp'', JInt (t0 + 3600))] key ALGORITHM)
     = Inr False \<and>
   (em' \<noteq> em \<longrightarrow>
      verify_verification_token key' now em'
        (jwt_encode [(''sub'', JStr em), (''exp'', JInt (t0 + 3600))] key ALGORITHM)
        = Inr False) \<and>
   verify_verification_token key' now em' (Text str) = Inr False \<and>
   (sg \<noteq> HMAC key' alg claims \<longrightarrow>
      verify_verification_token key' now em' (JWS alg claims sg) = Inr False)"
proof -
  have "generate_verification_token key t0 em =
     (if datetime_ok (t0 + 3600)
      then Inr (jwt_encode [(''sub'', JStr em), (''exp'', JInt (t0 + 3600))] key ALGORITHM)
      else Inl OverflowError)"
    by (simp add: generate_verification_token_def VERIFICATION_TOKEN_EXPIRE_MINUTES_def
        datetime_add_def Let_def)
  moreover have "verify_verification_token key' now em' (Text str) = Inr False"
    by (simp add: verify_verification_token_def pyjwt_decode_def jws_verify_def)
  moreover have "verify_verification_token key' now em' (JWS alg claims sg) = Inr False"
    if "sg \<noteq> HMAC key' alg claims"
    using that by (auto simp: verify_verification_token_def pyjwt_decode_def jws_verify_def)
  ultimately show ?thesis
    by (auto simp: verify_issued token_exp_encode)
qed

theorem verification_token_window_witness:
  "generate_verification_token ''k'' 1000 ''u@example.com'' =
     Inr (jwt_encode [(''sub'', JStr ''u@example.com''), (''exp'', JInt 4600)] ''k'' ALGORITHM) \<and>
   verify_verification_token ''k'' 2800 ''u@example.com''
     (jwt_encode [(''sub'', JStr ''u@example.com''), (''exp'', JInt 4600)] ''k'' ALGORITHM)
     = Inr True \<and>
   verify_verification_token ''k'' 4601 ''u@example.com''
     (jwt_encode [(''sub'', JStr ''u@example.com''), (''exp'', JInt 4600)] ''k'' ALGORITHM)
     = Inr False \<and>
   verify_verification_token ''k'' 1010 ''other@example.com''
     (jwt_encode [(''sub'', JStr ''u@example.com''), (''exp'', JInt 4600)] ''k'' ALGORITHM)
     = Inr False"
  using verification_token_window
      [of "''k''" 1000 "''u@example.com''" "''k''" 1010 "''other@example.com''"
        "''x''" "HMAC ''k'' ALGORITHM []" ALGORITHM "[]"]
  by (simp add: datetime_ok_def)

text \<open>
  Claim C7 as stated fails in the second of the expiry: the token issued at second 1000
  for \<open>''u@example.com''\<close> expires at second 4600; at second 4600 the current time is not
  past the expiry, the signature is valid and the email is the subject, yet the token
  does not verify.
\<close>

theorem verification_expiry_second_counterexample:
  "generate_verification_token ''k'' 1000 ''u@example.com'' =
     Inr (jwt_encode [(''sub'', JStr ''u@example.com''), (''exp'', JInt 4600)] ''k'' ALGORITHM) \<and>
   \<not> (4600 :: int) > 4600 \<and>
   verify_verification_token ''k'' 4600 ''u@example.com''
     (jwt_encode [(''sub'', JStr ''u@example.com''), (''exp'', JInt 4600)] ''k'' ALGORITHM)
     = Inr False"
  by (simp add: generate_verification_token_def VERIFICATION_TOKEN_EXPIRE_MINUTES_def
      datetime_add_def datetime_ok_def Let_def verify_issued)

text \<open>
  Claim C9.  \<open>verify_verification_token\<close> does not always return a boolean: whenever the
  library decodes the token, so that it is validly signed under the configured secret and
  not expired, but the claims have no \<^verbatim>\<open>sub\<close>, the lookup \<^verbatim>\<open>payload["sub"]\<close> raises
  \<^verbatim>\<open>KeyError\<close>, and only the library's errors are caught around it.  A token signed under
  the secret whose only claim is an \<^verbatim>\<open>exp\<close> in the future is such an input.
\<close>

theorem verify_verification_token_missing_sub:
  "(pyjwt_decode now tok key [ALGORITHM] = Inr claims \<longrightarrow> map_of claims ''sub'' = None \<longrightarrow>
      verify_verification_token key now em tok = Inl (KeyError ''sub'')) \<and>
   (now < e \<longrightarrow>
      verify_verification_token key now em (jwt_encode [(''exp'', JInt e)] key ALGORITHM)
        = Inl (KeyError ''sub''))"
proof -
  have "pyjwt_decode now (jwt_encode [(''exp'', JInt e)] key ALGORITHM) key [ALGORITHM]
      = Inr [(''exp'', JInt e)]" if "now < e"
    using that
    by (simp add: pyjwt_decode_def jws_verify_encode pyjwt_validate_claims_def
        pyjwt_not_after_def pyjwt_validate_exp_def pyjwt_int_claim_def py_int_def
        pyjwt_validate_aud_def string_claim_def)
  then show ?thesis
    by (auto simp: verify_verification_token_def dict_item_def)
qed

theorem verify_verification_token_missing_sub_witness:
  "verify_verification_token ''k'' 10 ''u@example.com''
     (jwt_encode [(''exp'', JInt 100)] ''k'' ALGORITHM) = Inl (KeyError ''sub'')"
  using verify_verification_token_missing_sub [of 10 _ "''k''" _ "''u@example.com''" 100]
  by simp

subsection \<open>A lifetime of zero\<close>

text \<open>
  Claim C10, as amended.  \<open>create_access_token\<close> treats a lifetime of 0 seconds as no
  lifetime: the token it issues is the one issued for \<^verbatim>\<open>None\<close>, with the default expiry.
  For every lifetime that is not negative, the expiry of a token that is issued is not
  before the time of issuance: it is the default expiry for zero and \<open>now\<close> plus the
  lifetime's whole seconds otherwise, and nothing is issued, with an \<^verbatim>\<open>OverflowError\<close>,
  where that is no date.
\<close>

theorem zero_lifetime_falls_back:
  "create_access_token key now data (Some (Finite 0)) = create_access_token key now data None \<and>
   (datetime_ok (now + 15 * 60) \<longrightarrow>
      create_access_token key now data (Some (Finite 0)) =
        Inr (jwt_encode (dict_update ''exp'' (JInt (now + 15 * 60)) data) key ALGORITHM)) \<and>
   (0 < q \<longrightarrow> datetime_ok now \<longrightarrow>
      create_access_token key now data (Some (Finite q)) =
        (if datetime_ok (now + \<lfloor>q\<rfloor>)
         then Inr (jwt_encode (dict_update ''exp'' (JInt (now + \<lfloor>q\<rfloor>)) data) key ALGORITHM)
         else Inl OverflowError)) \<and>
   (0 \<le> q \<longrightarrow> create_access_token key now data (Some (Finite q)) = Inr tok \<longrightarrow>
      (\<exists>e. token_exp tok = Some (JInt e) \<and> now \<le> e))"
proof -
  have zero: "token_expire now (Some (Finite 0)) (15 * 60) = token_expire now None (15 * 60)"
    by (simp add: token_expire_def truthy_def)
  have dflt: "token_expire now None (15 * 60) = Inr (now + 15 * 60)" if "datetime_ok (now + 15 * 60)"
    using that by (simp add: token_expire_def datetime_add_def)
  have pos: "token_expire now (Some (Finite q)) (15 * 60) =
      (if datetime_ok (now + \<lfloor>q\<rfloor>) then Inr (now + \<lfloor>q\<rfloor>) else Inl OverflowError)"
    if "0 < q" "datetime_ok now"
    using that by (simp add: token_expire_def truthy_def expire_after_finite trunc_def)
  have later: "now \<le> t" if "0 \<le> q" "token_expire now (Some (Finite q)) (15 * 60) = Inr t" for t
  proof (cases "q = 0")
    case True
    with that show ?thesis
      by (auto simp: token_expire_def truthy_def datetime_add_def split: if_splits)
  next
    case False
    with that have "0 \<le> trunc q" by (simp add: trunc_def)
    with False that show ?thesis
      by (auto simp: token_expire_def truthy_def expire_after_def float_int_def
          timedelta_seconds_def datetime_add_def split: if_splits)
  qed
  have issued: "\<exists>e. token_exp tok = Some (JInt e) \<and> now \<le> e"
    if "0 \<le> q" "create_access_token key now data (Some (Finite q)) = Inr tok"
  proof -
    from that(2) obtain t where t: "token_expire now (Some (Finite q)) (15 * 60) = Inr t"
      and tok: "tok = jwt_encode (dict_update ''exp'' (JInt t) data) key ALGORITHM"
      by (auto simp: create_access_token_eq split: sum.splits)
    from later [OF that(1) t] show ?thesis
      by (simp add: tok token_exp_encode map_of_dict_update)
  qed
  have c1: "create_access_token key now data (Some (Finite 0)) =
      create_access_token key now data None"
    by (simp add: create_access_token_eq zero [simplified])
  have c2: "create_access_token key now data (Some (Finite 0)) =
      Inr (jwt_encode (dict_update ''exp'' (JInt (now + 15 * 60)) data) key ALGORITHM)"
    if "datetime_ok (now + 15 * 60)"
    using that dflt by (simp add: create_access_token_eq zero [simplified])
  have c3: "create_access_token key now data (Some (Finite q)) =
        (if datetime_ok (now + \<lfloor>q\<rfloor>)
         then Inr (jwt_encode (dict_update ''exp'' (JInt (now + \<lfloor>q\<rfloor>)) data) key ALGORITHM)
         else Inl OverflowError)"
    if "0 < q" "datetime_ok now"
    using pos [OF that] by (simp add: create_access_token_eq)
  from c1 c2 c3 issued show ?thesis by blast
qed

theorem zero_lifetime_falls_back_witness:
  "create_access_token ''k'' 1000 [(''sub'', JStr ''a@example.com'')] (Some (Finite 0)) =
     Inr (jwt_encode [(''sub'', JStr ''a@example.com''), (''exp'', JInt 1900)] ''k'' ALGORITHM) \<and>
   create_access_token ''k'' 1000 [(''sub'', JStr ''a@example.com'')] (Some (Finite (11 / 2))) =
     Inr (jwt_encode [(''sub'', JStr ''a@example.com''), (''exp'', JInt 1005)] ''k'' ALGORITHM)"
  using zero_lifetime_falls_back
      [of "''k''" 1000 "[(''sub'', JStr ''a@example.com'')]" "11 / 2" "Text []"]
  by (auto simp: datetime_ok_def dict_update_def)

text \<open>
  Claim C10 as stated fails: a negative lifetime is true in Python's truth test and is
  used as it is, so the token requested at second 1000 with a lifetime of -60 seconds
  carries the expiry 940 and is rejected as expired at the second it is issued.
\<close>

theorem negative_lifetime_counterexample:
  "create_access_token ''k'' 1000 [(''sub'', JStr ''a@example.com'')] (Some (Finite (- 60))) =
     Inr (jwt_encode [(''sub'', JStr ''a@example.com''), (''exp'', JInt 940)] ''k'' ALGORITHM) \<and>
   jose_jwt_decode 1000
     (jwt_encode [(''sub'', JStr ''a@example.com''), (''exp'', JInt 940)] ''k'' ALGORITHM)
     ''k'' [ALGORITHM] = Inl (JWTError ExpiredSignatureError)"
  by (simp add: create_access_token_eq token_expire_def truthy_def expire_after_def
      float_int_def trunc_def timedelta_seconds_def datetime_add_def datetime_ok_def
      dict_update_def jose_decode_issued)

end
